theory Spec2Isabelle
  imports Main "HOL-Library.Word"
begin

section \<open>Data model\<close>

text \<open>
  The helpers of \<^verbatim>\<open>proto_utils.cc\<close> store primitive values in protocol-buffer
  messages and look arguments up by name. They never compute with the values, so a
  C++ \<^verbatim>\<open>float\<close> is kept as its IEEE-754 single-precision bit pattern and a C++
  \<^verbatim>\<open>int\<close> as a 32-bit word. A \<^verbatim>\<open>std::string\<close> is a sequence of bytes, which is
  what a HOL \<open>string\<close> is.
\<close>

type_synonym float32 = "32 word"
type_synonym cint = "32 word"

text \<open>
  Modelled from the spec: the schema of \<^verbatim>\<open>Argument\<close> (generated from a
  \<^verbatim>\<open>.proto\<close> file that is not part of this source file). Its fields are the name, the
  optional scalars \<^verbatim>\<open>f\<close>, \<^verbatim>\<open>i\<close>, \<^verbatim>\<open>s\<close> and the repeated
  \<^verbatim>\<open>floats\<close>, \<^verbatim>\<open>ints\<close>, \<^verbatim>\<open>strings\<close>. An unset optional scalar is
  \<open>None\<close>; an empty repeated field is \<open>[]\<close>.
\<close>

record Argument =
  arg_name :: string
  arg_f :: "float32 option"
  arg_i :: "cint option"
  arg_s :: "string option"
  arg_floats :: "float32 list"
  arg_ints :: "cint list"
  arg_strings :: "string list"

text \<open>The default-constructed message of \<^verbatim>\<open>Argument arg;\<close>: nothing is set.\<close>

definition Argument_new :: Argument where
  "Argument_new =
     \<lparr>arg_name = [], arg_f = None, arg_i = None, arg_s = None,
      arg_floats = [], arg_ints = [], arg_strings = []\<rparr>"

text \<open>The generated setters and adders the source file calls.\<close>

definition set_name :: "string \<Rightarrow> Argument \<Rightarrow> Argument" where
  "set_name n a = a\<lparr>arg_name := n\<rparr>"

definition set_f :: "float32 \<Rightarrow> Argument \<Rightarrow> Argument" where
  "set_f v a = a\<lparr>arg_f := Some v\<rparr>"

definition set_i :: "cint \<Rightarrow> Argument \<Rightarrow> Argument" where
  "set_i v a = a\<lparr>arg_i := Some v\<rparr>"

definition set_s :: "string \<Rightarrow> Argument \<Rightarrow> Argument" where
  "set_s v a = a\<lparr>arg_s := Some v\<rparr>"

definition add_floats :: "float32 \<Rightarrow> Argument \<Rightarrow> Argument" where
  "add_floats v a = a\<lparr>arg_floats := arg_floats a @ [v]\<rparr>"

definition add_ints :: "cint \<Rightarrow> Argument \<Rightarrow> Argument" where
  "add_ints v a = a\<lparr>arg_ints := arg_ints a @ [v]\<rparr>"

definition add_strings :: "string \<Rightarrow> Argument \<Rightarrow> Argument" where
  "add_strings v a = a\<lparr>arg_strings := arg_strings a @ [v]\<rparr>"

section \<open>Fatal diagnostics and missing results\<close>

text \<open>
  Modelled from the spec: the macros \<^verbatim>\<open>CAFFE_LOG_FATAL\<close>, \<^verbatim>\<open>CAFFE_CHECK\<close> and
  \<^verbatim>\<open>CAFFE_CHECK_NE\<close> come from \<^verbatim>\<open>caffe2/core/logging.h\<close>, which is not part of
  this source file. A fatal log writes its diagnostic and aborts the process; a check
  does so when its condition is false. \<open>Fatal msg\<close> is that abort, with the text the
  source streams into the macro.

  \<open>NoReturnStatement\<close> is the other way a call can end without a value: control
  reaches the closing brace of a function that returns a value, and no
  \<^verbatim>\<open>return\<close> was executed (undefined behaviour in C++).
\<close>

datatype error = Fatal string | NoReturnStatement

definition CAFFE_CHECK :: "bool \<Rightarrow> string \<Rightarrow> error + unit" where
  "CAFFE_CHECK ok msg = (if ok then Inr () else Inl (Fatal msg))"

definition CAFFE_CHECK_NE :: "int \<Rightarrow> int \<Rightarrow> string \<Rightarrow> error + unit" where
  "CAFFE_CHECK_NE a b msg = (if a \<noteq> b then Inr () else Inl (Fatal msg))"

section \<open>Argument construction\<close>

text \<open>
  \<^verbatim>\<open>CAFFE2_MAKE_SINGULAR_ARGUMENT(T, fieldname)\<close>, expanded for \<^verbatim>\<open>(float, f)\<close>,
  \<^verbatim>\<open>(int, i)\<close> and \<^verbatim>\<open>(string, s)\<close>.
\<close>

definition MakeArgument_float :: "string \<Rightarrow> float32 \<Rightarrow> Argument" where
  "MakeArgument_float name val = set_f val (set_name name Argument_new)"

definition MakeArgument_int :: "string \<Rightarrow> cint \<Rightarrow> Argument" where
  "MakeArgument_int name val = set_i val (set_name name Argument_new)"

definition MakeArgument_string :: "string \<Rightarrow> string \<Rightarrow> Argument" where
  "MakeArgument_string name val = set_s val (set_name name Argument_new)"

text \<open>
  The \<^verbatim>\<open>MessageLite\<close> specialisation. \<open>SerializeAsString\<close> is the message's own
  virtual method, owned by the protocol-buffer library: a parameter here.
\<close>

definition MakeArgument_MessageLite :: "('m \<Rightarrow> string) \<Rightarrow> string \<Rightarrow> 'm \<Rightarrow> Argument" where
  "MakeArgument_MessageLite SerializeAsString name val =
     set_s (SerializeAsString val) (set_name name Argument_new)"

text \<open>
  \<^verbatim>\<open>CAFFE2_MAKE_REPEATED_ARGUMENT(T, fieldname)\<close>, expanded for
  \<^verbatim>\<open>(float, floats)\<close>, \<^verbatim>\<open>(int, ints)\<close> and \<^verbatim>\<open>(string, strings)\<close>. The macro
  body declares \<^verbatim>\<open>arg\<close>, sets its name, runs the range-for loop over
  \<^verbatim>\<open>value\<close> and then ends: there is no \<^verbatim>\<open>return arg;\<close> before the closing
  brace. The \<open>_arg\<close> functions give the local \<^verbatim>\<open>arg\<close> as it stands when the loop
  has finished; the functions themselves give what the call hands to its caller.
\<close>

definition MakeArgument_floats_arg :: "string \<Rightarrow> float32 list \<Rightarrow> Argument" where
  "MakeArgument_floats_arg name val = fold add_floats val (set_name name Argument_new)"

definition MakeArgument_ints_arg :: "string \<Rightarrow> cint list \<Rightarrow> Argument" where
  "MakeArgument_ints_arg name val = fold add_ints val (set_name name Argument_new)"

definition MakeArgument_strings_arg :: "string \<Rightarrow> string list \<Rightarrow> Argument" where
  "MakeArgument_strings_arg name val = fold add_strings val (set_name name Argument_new)"

definition MakeArgument_floats :: "string \<Rightarrow> float32 list \<Rightarrow> error + Argument" where
  "MakeArgument_floats name val =
     (let arg = MakeArgument_floats_arg name val in Inl NoReturnStatement)"

definition MakeArgument_ints :: "string \<Rightarrow> cint list \<Rightarrow> error + Argument" where
  "MakeArgument_ints name val =
     (let arg = MakeArgument_ints_arg name val in Inl NoReturnStatement)"

definition MakeArgument_strings :: "string \<Rightarrow> string list \<Rightarrow> error + Argument" where
  "MakeArgument_strings name val =
     (let arg = MakeArgument_strings_arg name val in Inl NoReturnStatement)"

section \<open>Argument lookup\<close>

text \<open>
  Modelled from the spec: the schema of \<^verbatim>\<open>OperatorDef\<close>, of which these helpers use
  the ordered sequence of arguments only (\<^verbatim>\<open>arg()\<close>, \<^verbatim>\<open>arg_size()\<close>,
  \<^verbatim>\<open>arg(i)\<close>, \<^verbatim>\<open>mutable_arg(i)\<close>, \<^verbatim>\<open>add_arg()\<close>).
\<close>

record OperatorDef =
  op_arg :: "Argument list"

definition arg_size :: "OperatorDef \<Rightarrow> nat" where
  "arg_size d = length (op_arg d)"

text \<open>
  A reference or pointer to an entry of \<^verbatim>\<open>def.arg()\<close> is the position of that entry
  in the sequence: two entries with equal contents are still two entries. \<open>None\<close> is
  \<^verbatim>\<open>nullptr\<close>. A store through such a pointer changes the entry in place.
\<close>

type_synonym arg_ptr = nat

definition store_through :: "arg_ptr \<Rightarrow> (Argument \<Rightarrow> Argument) \<Rightarrow> OperatorDef \<Rightarrow> OperatorDef" where
  "store_through p g d = d\<lparr>op_arg := (op_arg d)[p := g (op_arg d ! p)]\<rparr>"

text \<open>\<^verbatim>\<open>add_arg()\<close> appends a default-constructed entry and returns a pointer to it.\<close>

definition add_arg :: "OperatorDef \<Rightarrow> arg_ptr \<times> OperatorDef" where
  "add_arg d = (arg_size d, d\<lparr>op_arg := op_arg d @ [Argument_new]\<rparr>)"

text \<open>
  \<^verbatim>\<open>GetArgument\<close>: the range-for loop over \<^verbatim>\<open>def.arg()\<close>, with the position of
  the entry under inspection counted in \<open>k\<close>; then the fatal log.
\<close>

fun GetArgument_loop :: "Argument list \<Rightarrow> string \<Rightarrow> nat \<Rightarrow> arg_ptr option" where
  "GetArgument_loop [] name k = None"
| "GetArgument_loop (a # rest) name k =
     (if arg_name a = name then Some k else GetArgument_loop rest name (Suc k))"

definition GetArgument :: "OperatorDef \<Rightarrow> string \<Rightarrow> error + arg_ptr" where
  "GetArgument d name =
     (case GetArgument_loop (op_arg d) name 0 of
        Some k \<Rightarrow> Inr k
      | None \<Rightarrow> Inl (Fatal (''Argument named '' @ name @ '' does not exist.'')))"

text \<open>
  \<^verbatim>\<open>GetMutableArgument\<close>: the indexed loop
  \<^verbatim>\<open>for (int i = 0; i < def->arg_size(); ++i)\<close>, then the branch on
  \<^verbatim>\<open>create_if_missing\<close>. The result is the returned pointer and the definition as
  the call leaves it.
\<close>

function GetMutableArgument_loop :: "string \<Rightarrow> OperatorDef \<Rightarrow> nat \<Rightarrow> arg_ptr option" where
  "GetMutableArgument_loop name d i =
     (if i < arg_size d then
        (if arg_name (op_arg d ! i) = name then Some i
         else GetMutableArgument_loop name d (Suc i))
      else None)"
  by pat_completeness auto
termination
  by (relation "measure (\<lambda>(name, d, i). arg_size d - i)") auto

declare GetMutableArgument_loop.simps [simp del]

definition GetMutableArgument ::
  "string \<Rightarrow> bool \<Rightarrow> OperatorDef \<Rightarrow> arg_ptr option \<times> OperatorDef" where
  "GetMutableArgument name create_if_missing d =
     (case GetMutableArgument_loop name d 0 of
        Some i \<Rightarrow> (Some i, d)
      | None \<Rightarrow>
          if create_if_missing then
            (case add_arg d of (p, d') \<Rightarrow> (Some p, store_through p (set_name name) d'))
          else (None, d))"

section \<open>File input and output\<close>

text \<open>
  The file system as these helpers see it: for each path, the bytes of the file that
  \<^verbatim>\<open>open(path, O_RDONLY)\<close> and \<^verbatim>\<open>std::ifstream\<close> can open (\<open>None\<close> when the
  open fails), whether \<^verbatim>\<open>open(path, O_WRONLY | O_CREAT | O_TRUNC, 0644)\<close>
  succeeds, and the \<^verbatim>\<open>errno\<close> a failed open leaves behind.
\<close>

record filesys =
  fs_contents :: "string \<Rightarrow> string option"
  fs_creatable :: "string \<Rightarrow> bool"
  fs_errno :: "string \<Rightarrow> int"

text \<open>
  \<^verbatim>\<open>open\<close> returns \<open>-1\<close> on failure and a fresh descriptor otherwise; which
  number it is does not matter to the helpers, \<open>3\<close> is the first one free in a
  process that holds the three standard streams. Opening for writing creates or
  truncates the file.
\<close>

definition open_RDONLY :: "filesys \<Rightarrow> string \<Rightarrow> int" where
  "open_RDONLY fs filename = (case fs_contents fs filename of None \<Rightarrow> - 1 | Some bs \<Rightarrow> 3)"

definition open_WRONLY_CREAT_TRUNC :: "filesys \<Rightarrow> string \<Rightarrow> int \<times> filesys" where
  "open_WRONLY_CREAT_TRUNC fs filename =
     (if fs_creatable fs filename
      then (3, fs\<lparr>fs_contents := (fs_contents fs)(filename \<mapsto> [])\<rparr>)
      else (- 1, fs))"

text \<open>
  The library's streams, as far as the helpers configure them. A
  \<^verbatim>\<open>FileInputStream\<close> is built on a descriptor and delivers the bytes behind it;
  a \<^verbatim>\<open>FileOutputStream\<close> collects what is printed to it, and deleting it
  flushes that to the descriptor: the bytes reach the file when the descriptor is
  valid, and are lost without any report when it is \<open>-1\<close>.
\<close>

record FileInputStream =
  fis_fd :: int
  fis_bytes :: string

definition FileInputStream_new :: "filesys \<Rightarrow> string \<Rightarrow> int \<Rightarrow> FileInputStream" where
  "FileInputStream_new fs filename fd =
     \<lparr>fis_fd = fd,
      fis_bytes = (case fs_contents fs filename of None \<Rightarrow> [] | Some bs \<Rightarrow> bs)\<rparr>"

record FileOutputStream =
  fos_fd :: int
  fos_buffer :: string

definition FileOutputStream_new :: "int \<Rightarrow> FileOutputStream" where
  "FileOutputStream_new fd = \<lparr>fos_fd = fd, fos_buffer = []\<rparr>"

definition FileOutputStream_delete :: "string \<Rightarrow> FileOutputStream \<Rightarrow> filesys \<Rightarrow> filesys" where
  "FileOutputStream_delete filename output fs =
     (if fos_fd output = - 1 then fs
      else fs\<lparr>fs_contents := (fs_contents fs)(filename \<mapsto> fos_buffer output)\<rparr>)"

text \<open>
  A \<^verbatim>\<open>CodedInputStream\<close> over some underlying stream, with the two limits that
  \<^verbatim>\<open>SetTotalBytesLimit(int, int)\<close> sets. The constructor's defaults are the
  library's (64 MiB and 32 MiB); both helpers overwrite them before parsing.
\<close>

record 'src CodedInputStream =
  cis_input :: 'src
  total_bytes_limit :: cint
  warning_threshold :: cint

definition CodedInputStream_new :: "'src \<Rightarrow> 'src CodedInputStream" where
  "CodedInputStream_new src =
     \<lparr>cis_input = src, total_bytes_limit = 67108864, warning_threshold = 33554432\<rparr>"

definition SetTotalBytesLimit ::
  "cint \<Rightarrow> cint \<Rightarrow> 'src CodedInputStream \<Rightarrow> 'src CodedInputStream" where
  "SetTotalBytesLimit limit threshold cs =
     cs\<lparr>total_bytes_limit := limit, warning_threshold := threshold\<rparr>"

subsection \<open>Lite runtime\<close>

text \<open>
  \<^verbatim>\<open>IfstreamInputStream\<close> holds a \<^verbatim>\<open>std::ifstream\<close>: its state flag
  (\<^verbatim>\<open>!ifs_\<close> is \<open>\<not> ifs_good\<close>) and the bytes not read yet. The constructor
  opens the file and never fails; a file that cannot be opened leaves the flag down.
  \<^verbatim>\<open>Read\<close> returns \<open>-1\<close> when the flag is down, and otherwise the number of
  bytes \<^verbatim>\<open>ifs_.read\<close> extracted (\<^verbatim>\<open>gcount\<close>), the bytes themselves and the
  stream after the call; \<^verbatim>\<open>read\<close> lowers the flag when it extracts fewer bytes
  than asked for.
\<close>

record IfstreamInputStream =
  ifs_good :: bool
  ifs_bytes :: string

definition IfstreamInputStream_new :: "filesys \<Rightarrow> string \<Rightarrow> IfstreamInputStream" where
  "IfstreamInputStream_new fs filename =
     (case fs_contents fs filename of
        None \<Rightarrow> \<lparr>ifs_good = False, ifs_bytes = []\<rparr>
      | Some bs \<Rightarrow> \<lparr>ifs_good = True, ifs_bytes = bs\<rparr>)"

definition Read :: "IfstreamInputStream \<Rightarrow> nat \<Rightarrow> int \<times> string \<times> IfstreamInputStream" where
  "Read st sz =
     (if ifs_good st then
        (let got = take sz (ifs_bytes st)
         in (int (length got), got,
             \<lparr>ifs_good = (length got = sz), ifs_bytes = drop sz (ifs_bytes st)\<rparr>))
      else (- 1, [], st))"

text \<open>
  The lite \<^verbatim>\<open>ReadProtoFromBinaryFile\<close>. \<open>coded_stream\<close> is the local of that name
  when the parser is called: the limits are the \<^verbatim>\<open>long long\<close> values
  \<^verbatim>\<open>1024LL << 20\<close> and \<^verbatim>\<open>512LL << 20\<close>, converted to the \<^verbatim>\<open>int\<close> parameters.
  \<open>ParseFromCodedStream\<close> is the message's own method, owned by the library: a
  parameter, giving the success flag and the message as parsing leaves it.
\<close>

definition coded_stream :: "filesys \<Rightarrow> string \<Rightarrow> IfstreamInputStream CodedInputStream" where
  "coded_stream fs filename =
     SetTotalBytesLimit (ucast (push_bit 20 (1024 :: 64 word)))
       (ucast (push_bit 20 (512 :: 64 word)))
       (CodedInputStream_new (IfstreamInputStream_new fs filename))"

definition ReadProtoFromBinaryFile_lite ::
  "(IfstreamInputStream CodedInputStream \<Rightarrow> 'm \<Rightarrow> bool \<times> 'm) \<Rightarrow>
     filesys \<Rightarrow> string \<Rightarrow> 'm \<Rightarrow> bool \<times> 'm" where
  "ReadProtoFromBinaryFile_lite ParseFromCodedStream fs filename proto =
     ParseFromCodedStream (coded_stream fs filename) proto"

definition WriteProtoToBinaryFile_lite :: "'m \<Rightarrow> string \<Rightarrow> filesys \<Rightarrow> error + filesys" where
  "WriteProtoToBinaryFile_lite proto filename fs = Inl (Fatal ''Not implemented yet.'')"

subsection \<open>Full protocol buffer\<close>

text \<open>
  \<open>coded_input\<close> is the local of that name in the full
  \<^verbatim>\<open>ReadProtoFromBinaryFile\<close> when the parser is called. The read helpers return
  the success flag with the message as the parser leaves it, unless a check aborts.
\<close>

definition coded_input :: "FileInputStream \<Rightarrow> FileInputStream CodedInputStream" where
  "coded_input raw_input =
     SetTotalBytesLimit 1073741824 536870912 (CodedInputStream_new raw_input)"

definition ReadProtoFromBinaryFile_full ::
  "(FileInputStream CodedInputStream \<Rightarrow> 'm \<Rightarrow> bool \<times> 'm) \<Rightarrow>
     filesys \<Rightarrow> string \<Rightarrow> 'm \<Rightarrow> error + bool \<times> 'm" where
  "ReadProtoFromBinaryFile_full ParseFromCodedStream fs filename proto =
     (let fd = open_RDONLY fs filename in
      case CAFFE_CHECK_NE fd (- 1) (''File not found: '' @ filename) of
        Inl e \<Rightarrow> Inl e
      | Inr u \<Rightarrow>
          Inr (ParseFromCodedStream (coded_input (FileInputStream_new fs filename fd)) proto))"

definition ReadProtoFromTextFile ::
  "(FileInputStream \<Rightarrow> 'm \<Rightarrow> bool \<times> 'm) \<Rightarrow>
     filesys \<Rightarrow> string \<Rightarrow> 'm \<Rightarrow> error + bool \<times> 'm" where
  "ReadProtoFromTextFile Parse fs filename proto =
     (let fd = open_RDONLY fs filename in
      case CAFFE_CHECK_NE fd (- 1) (''File not found: '' @ filename) of
        Inl e \<Rightarrow> Inl e
      | Inr u \<Rightarrow> Inr (Parse (FileInputStream_new fs filename fd) proto))"

text \<open>
  \<^verbatim>\<open>WriteProtoToTextFile\<close>: open, print, check the printer's verdict, delete the
  stream, close. The descriptor is handed to the stream as \<^verbatim>\<open>open\<close> returned it.
  \<open>Print\<close> is \<^verbatim>\<open>TextFormat::Print\<close>, owned by the library: a parameter, giving
  its verdict and the stream after printing. The check streams no text of its own.
\<close>

definition WriteProtoToTextFile ::
  "('m \<Rightarrow> FileOutputStream \<Rightarrow> bool \<times> FileOutputStream) \<Rightarrow>
     'm \<Rightarrow> string \<Rightarrow> filesys \<Rightarrow> error + filesys" where
  "WriteProtoToTextFile Print proto filename fs =
     (case open_WRONLY_CREAT_TRUNC fs filename of
        (fd, fs') \<Rightarrow>
          (case Print proto (FileOutputStream_new fd) of
             (ok, output) \<Rightarrow>
               (case CAFFE_CHECK ok [] of
                  Inl e \<Rightarrow> Inl e
                | Inr u \<Rightarrow> Inr (FileOutputStream_delete filename output fs'))))"

text \<open>
  \<^verbatim>\<open>WriteProtoToBinaryFile\<close> (full): the same steps, with a check of the
  descriptor right after \<^verbatim>\<open>open\<close>. Its diagnostic ends with \<^verbatim>\<open>errno\<close> in
  decimal.
\<close>

function show_nat :: "nat \<Rightarrow> string" where
  "show_nat n =
     (if n < 10 then [''0123456789'' ! n]
      else show_nat (n div 10) @ [''0123456789'' ! (n mod 10)])"
  by pat_completeness auto
termination
  by (relation "measure (\<lambda>n. n)") auto

declare show_nat.simps [simp del]

definition show_int :: "int \<Rightarrow> string" where
  "show_int k = (if k < 0 then CHR ''-'' # show_nat (nat (- k)) else show_nat (nat k))"

definition WriteProtoToBinaryFile_full ::
  "('m \<Rightarrow> FileOutputStream \<Rightarrow> bool \<times> FileOutputStream) \<Rightarrow>
     'm \<Rightarrow> string \<Rightarrow> filesys \<Rightarrow> error + filesys" where
  "WriteProtoToBinaryFile_full SerializeToCodedStream proto filename fs =
     (case open_WRONLY_CREAT_TRUNC fs filename of
        (fd, fs') \<Rightarrow>
          (case CAFFE_CHECK_NE fd (- 1)
                  (''File cannot be created: '' @ filename @ '' error number: ''
                     @ show_int (fs_errno fs filename)) of
             Inl e \<Rightarrow> Inl e
           | Inr u \<Rightarrow>
               (case SerializeToCodedStream proto (FileOutputStream_new fd) of
                  (ok, output) \<Rightarrow>
                    (case CAFFE_CHECK ok [] of
                       Inl e \<Rightarrow> Inl e
                     | Inr u' \<Rightarrow> Inr (FileOutputStream_delete filename output fs')))))"

section \<open>Concrete inputs\<close>

text \<open>
  Inputs at which the functions above are evaluated below. \<open>def_aba\<close> is an
  operator definition whose arguments are named \<^verbatim>\<open>a\<close>, \<^verbatim>\<open>b\<close>, \<^verbatim>\<open>a\<close>.
  \<open>fs_fixture\<close> is a file system with two readable files and one path that can be
  created; every other open fails with \<^verbatim>\<open>ENOENT\<close> (2).
\<close>

definition def_aba :: OperatorDef where
  "def_aba =
     \<lparr>op_arg = [MakeArgument_int ''a'' 1, MakeArgument_int ''b'' 2, MakeArgument_int ''a'' 3]\<rparr>"

definition fs_fixture :: filesys where
  "fs_fixture =
     \<lparr>fs_contents =
        [''good.pb'' \<mapsto> [CHR 0x0A, CHR 0x03, CHR ''a'', CHR ''b'', CHR ''c''],
         ''bad.pb'' \<mapsto> ''x''],
      fs_creatable = (\<lambda>p. p = ''out.pbtxt''),
      fs_errno = (\<lambda>p. 2)\<rparr>"

text \<open>
  Stand-ins for the library's parameters, for these evaluations only.

  The parser stand-ins follow the library's path from stream to message for a
  message type whose schema has optional fields only, of which the wire bytes may set
  the name (field 1, length-delimited: the tag byte \<^verbatim>\<open>0x0A\<close>, a one-byte length,
  the bytes of the name). \<^verbatim>\<open>ParseFromCodedStream\<close> clears the message, merges the
  fields it reads until the stream ends, and then checks that no required field is
  missing; with no required field in the schema, the empty byte string is the
  encoding of the message with nothing set, and parsing it succeeds. In the lite
  build the coded stream gets its bytes from a \<^verbatim>\<open>CopyingInputStreamAdaptor\<close>,
  which asks \<open>Read\<close> for blocks of 8192 bytes and ends the stream at the first
  result that is not positive: to the coded stream a read error \<open>-1\<close> and the
  end of the file \<open>0\<close> look the same. \<open>CopyingInputStreamAdaptor_bytes\<close> is the
  byte sequence the adaptor delivers.

  \<open>Print_buffered\<close> prints a message that is its own text form into the stream's
  memory buffer, as the library's buffered file stream does: the descriptor is
  touched only when the buffer (8192 bytes) overflows, and only then can a bad
  descriptor make printing fail.
\<close>

function CopyingInputStreamAdaptor_bytes :: "IfstreamInputStream \<Rightarrow> string" where
  "CopyingInputStreamAdaptor_bytes st =
     (if fst (Read st 8192) \<le> 0 then []
      else fst (snd (Read st 8192))
             @ CopyingInputStreamAdaptor_bytes (snd (snd (Read st 8192))))"
  by pat_completeness auto
termination
  by (relation "measure (\<lambda>st. length (ifs_bytes st))")
     (auto simp: Read_def Let_def split: if_splits)

declare CopyingInputStreamAdaptor_bytes.simps [simp del]

definition decode_name :: "string \<Rightarrow> bool \<times> Argument" where
  "decode_name bytes =
     (case bytes of
        [] \<Rightarrow> (True, Argument_new)
      | t # tail \<Rightarrow>
          (case tail of
             [] \<Rightarrow> (False, Argument_new)
           | l # payload \<Rightarrow>
               if t = CHR 0x0A \<and> (of_char l :: nat) = length payload
               then (True, set_name payload Argument_new)
               else (False, Argument_new)))"

definition ParseFromCodedStream_name_full ::
  "FileInputStream CodedInputStream \<Rightarrow> Argument \<Rightarrow> bool \<times> Argument" where
  "ParseFromCodedStream_name_full cs m = decode_name (fis_bytes (cis_input cs))"

definition ParseFromCodedStream_name_lite ::
  "IfstreamInputStream CodedInputStream \<Rightarrow> Argument \<Rightarrow> bool \<times> Argument" where
  "ParseFromCodedStream_name_lite cs m =
     decode_name (CopyingInputStreamAdaptor_bytes (cis_input cs))"

definition Print_buffered :: "string \<Rightarrow> FileOutputStream \<Rightarrow> bool \<times> FileOutputStream" where
  "Print_buffered proto output =
     (if fos_fd output = - 1 \<and> 8192 < length (fos_buffer output @ proto)
      then (False, output)
      else (True, output\<lparr>fos_buffer := fos_buffer output @ proto\<rparr>))"

section \<open>Properties of argument construction\<close>

text \<open>
  C8: for every name and every value of a supported scalar type, the scalar
  \<^verbatim>\<open>MakeArgument\<close> returns a fresh \<^verbatim>\<open>Argument\<close> whose name is the input name and
  whose matching scalar field (\<^verbatim>\<open>f\<close>, \<^verbatim>\<open>i\<close> or \<^verbatim>\<open>s\<close>) holds the value, every
  other field staying unset; for a message-typed value, \<^verbatim>\<open>s\<close> holds the value's
  serialized byte encoding.
\<close>

theorem MakeArgument_scalar_fields:
  "MakeArgument_float name fv =
     \<lparr>arg_name = name, arg_f = Some fv, arg_i = None, arg_s = None,
      arg_floats = [], arg_ints = [], arg_strings = []\<rparr>
   \<and> MakeArgument_int name iv =
     \<lparr>arg_name = name, arg_f = None, arg_i = Some iv, arg_s = None,
      arg_floats = [], arg_ints = [], arg_strings = []\<rparr>
   \<and> MakeArgument_string name sv =
     \<lparr>arg_name = name, arg_f = None, arg_i = None, arg_s = Some sv,
      arg_floats = [], arg_ints = [], arg_strings = []\<rparr>
   \<and> MakeArgument_MessageLite SerializeAsString name mv =
     \<lparr>arg_name = name, arg_f = None, arg_i = None, arg_s = Some (SerializeAsString mv),
      arg_floats = [], arg_ints = [], arg_strings = []\<rparr>"
  by (simp add: MakeArgument_float_def MakeArgument_int_def MakeArgument_string_def
      MakeArgument_MessageLite_def set_name_def set_f_def set_i_def set_s_def Argument_new_def)

text \<open>
  The repeated-value loop appends the input values in order, so that the local
  \<^verbatim>\<open>arg\<close> is complete when the loop ends; the call itself ends without a value,
  whatever the input.
\<close>

lemma fold_add_floats: "fold add_floats vs a = a\<lparr>arg_floats := arg_floats a @ vs\<rparr>"
  by (induction vs arbitrary: a) (simp_all add: add_floats_def)

lemma fold_add_ints: "fold add_ints vs a = a\<lparr>arg_ints := arg_ints a @ vs\<rparr>"
  by (induction vs arbitrary: a) (simp_all add: add_ints_def)

lemma fold_add_strings: "fold add_strings vs a = a\<lparr>arg_strings := arg_strings a @ vs\<rparr>"
  by (induction vs arbitrary: a) (simp_all add: add_strings_def)

lemma MakeArgument_repeated_locals:
  "MakeArgument_floats_arg name fvs =
     \<lparr>arg_name = name, arg_f = None, arg_i = None, arg_s = None,
      arg_floats = fvs, arg_ints = [], arg_strings = []\<rparr>"
  "MakeArgument_ints_arg name ivs =
     \<lparr>arg_name = name, arg_f = None, arg_i = None, arg_s = None,
      arg_floats = [], arg_ints = ivs, arg_strings = []\<rparr>"
  "MakeArgument_strings_arg name svs =
     \<lparr>arg_name = name, arg_f = None, arg_i = None, arg_s = None,
      arg_floats = [], arg_ints = [], arg_strings = svs\<rparr>"
  by (simp_all add: MakeArgument_floats_arg_def MakeArgument_ints_arg_def
      MakeArgument_strings_arg_def fold_add_floats fold_add_ints fold_add_strings
      set_name_def Argument_new_def)

lemma MakeArgument_repeated_result:
  "MakeArgument_floats name fvs = Inl NoReturnStatement"
  "MakeArgument_ints name ivs = Inl NoReturnStatement"
  "MakeArgument_strings name svs = Inl NoReturnStatement"
  by (simp_all add: MakeArgument_floats_def MakeArgument_ints_def MakeArgument_strings_def)

text \<open>
  C1: the repeated-value \<^verbatim>\<open>MakeArgument\<close> is to return an \<^verbatim>\<open>Argument\<close> with the
  input name and the input values, in order, in the matching repeated field. At the
  name \<^verbatim>\<open>xs\<close> and the values 1, 2, 3 the \<^verbatim>\<open>int\<close> variant builds exactly that
  in its local \<^verbatim>\<open>arg\<close> and then reaches its closing brace without returning it.
\<close>

theorem MakeArgument_ints_returns_nothing:
  "MakeArgument_ints ''xs'' [1, 2, 3] = Inl NoReturnStatement
   \<and> MakeArgument_ints_arg ''xs'' [1, 2, 3] =
       \<lparr>arg_name = ''xs'', arg_f = None, arg_i = None, arg_s = None,
        arg_floats = [], arg_ints = [1, 2, 3], arg_strings = []\<rparr>"
  by (simp add: MakeArgument_ints_def MakeArgument_ints_arg_def add_ints_def
      set_name_def Argument_new_def)

section \<open>Properties of argument lookup\<close>

text \<open>
  The range-for loop finds nothing exactly when no entry has the name; what it
  finds is the first entry with the name, counted from the start position \<open>k\<close>.
\<close>

lemma GetArgument_loop_None:
  "GetArgument_loop xs n k = None \<longleftrightarrow> (\<forall>a\<in>set xs. arg_name a \<noteq> n)"
  by (induction xs arbitrary: k) auto

lemma GetArgument_loop_Some:
  "GetArgument_loop xs n k = Some p \<Longrightarrow>
     k \<le> p \<and> p - k < length xs \<and> arg_name (xs ! (p - k)) = n
     \<and> (\<forall>j < p - k. arg_name (xs ! j) \<noteq> n)"
proof (induction xs arbitrary: k)
  case Nil
  then show ?case by simp
next
  case (Cons a rest)
  show ?case
  proof (cases "arg_name a = n")
    case True
    with Cons.prems show ?thesis by simp
  next
    case False
    with Cons.prems have step: "GetArgument_loop rest n (Suc k) = Some p" by simp
    from Cons.IH [OF step] have ih:
      "Suc k \<le> p" "p - Suc k < length rest" "arg_name (rest ! (p - Suc k)) = n"
      "\<forall>j < p - Suc k. arg_name (rest ! j) \<noteq> n" by auto
    from ih(1) have pk: "p - k = Suc (p - Suc k)" by arith
    have "\<forall>j < p - k. arg_name ((a # rest) ! j) \<noteq> n"
    proof (intro allI impI)
      fix j assume "j < p - k"
      then show "arg_name ((a # rest) ! j) \<noteq> n"
        using False ih(4) pk by (cases j) auto
    qed
    with ih pk show ?thesis by auto
  qed
qed

lemma GetArgument_loop_append_fresh:
  "\<forall>a\<in>set xs. arg_name a \<noteq> n \<Longrightarrow>
     GetArgument_loop (xs @ [y]) n k =
       (if arg_name y = n then Some (k + length xs) else None)"
  by (induction xs arbitrary: k) auto

text \<open>
  The indexed loop of \<^verbatim>\<open>GetMutableArgument\<close> visits the same entries in the same
  order as the range-for loop of \<^verbatim>\<open>GetArgument\<close>.
\<close>

lemma GetMutableArgument_loop_drop:
  "i \<le> arg_size d \<Longrightarrow>
     GetMutableArgument_loop n d i = GetArgument_loop (drop i (op_arg d)) n i"
proof (induction n d i rule: GetMutableArgument_loop.induct)
  case (1 name d i)
  note unroll = GetMutableArgument_loop.simps [of name d i]
  show ?case
  proof (cases "i < arg_size d")
    case True
    then have dr: "drop i (op_arg d) = op_arg d ! i # drop (Suc i) (op_arg d)"
      by (simp add: arg_size_def Cons_nth_drop_Suc)
    show ?thesis
    proof (cases "arg_name (op_arg d ! i) = name")
      case True
      with \<open>i < arg_size d\<close> dr unroll show ?thesis by simp
    next
      case False
      with True have "GetMutableArgument_loop name d (Suc i)
          = GetArgument_loop (drop (Suc i) (op_arg d)) name (Suc i)"
        using "1.IH" by simp
      with True False dr unroll show ?thesis by simp
    qed
  next
    case False
    with "1.prems" have "i = arg_size d" by simp
    with unroll show ?thesis by (simp add: arg_size_def)
  qed
qed

lemma GetMutableArgument_loop_eq:
  "GetMutableArgument_loop n d 0 = GetArgument_loop (op_arg d) n 0"
  using GetMutableArgument_loop_drop [of 0 d n] by simp

lemmas fixture_simps =
  def_aba_def MakeArgument_int_def set_i_def set_name_def Argument_new_def

text \<open>
  C5: when at least one argument of \<open>d\<close> is named \<open>n\<close>, \<^verbatim>\<open>GetArgument\<close> returns
  the first entry in sequence order whose name is \<open>n\<close>: the entry it returns has
  the name, and no entry before it has. A later duplicate is never returned.
\<close>

theorem GetArgument_first_match:
  assumes "\<exists>a\<in>set (op_arg d). arg_name a = n"
  shows "\<exists>k. GetArgument d n = Inr k \<and> k < arg_size d \<and> arg_name (op_arg d ! k) = n
           \<and> (\<forall>j<k. arg_name (op_arg d ! j) \<noteq> n)"
proof -
  from assms have "GetArgument_loop (op_arg d) n 0 \<noteq> None"
    by (simp add: GetArgument_loop_None)
  then obtain k where k: "GetArgument_loop (op_arg d) n 0 = Some k" by auto
  from GetArgument_loop_Some [OF k] k show ?thesis
    by (simp add: GetArgument_def arg_size_def)
qed

text \<open>
  On the arguments \<^verbatim>\<open>a\<close>, \<^verbatim>\<open>b\<close>, \<^verbatim>\<open>a\<close> the lookup of \<^verbatim>\<open>a\<close> returns the entry
  at position 0, although the entry at position 2 has the name as well.
\<close>

theorem GetArgument_first_match_witness:
  "arg_name (op_arg def_aba ! 2) = ''a'' \<and> GetArgument def_aba ''a'' = Inr 0"
  using GetArgument_first_match [of def_aba "''a''"]
  by (simp add: GetArgument_def fixture_simps)

text \<open>
  C6: when no argument of \<open>d\<close> is named \<open>n\<close>, \<^verbatim>\<open>GetArgument\<close> takes the fatal
  path: it ends in the fatal diagnostic naming \<open>n\<close> and returns no entry.
\<close>

theorem GetArgument_missing_fatal:
  assumes "\<forall>a\<in>set (op_arg d). arg_name a \<noteq> n"
  shows "GetArgument d n = Inl (Fatal (''Argument named '' @ n @ '' does not exist.''))"
proof -
  from assms have "GetArgument_loop (op_arg d) n 0 = None"
    by (simp add: GetArgument_loop_None)
  then show ?thesis by (simp add: GetArgument_def)
qed

theorem GetArgument_missing_fatal_witness:
  "GetArgument def_aba ''missing'' = Inl (Fatal ''Argument named missing does not exist.'')"
  using GetArgument_missing_fatal [of def_aba "''missing''"]
  by (simp add: fixture_simps)

text \<open>
  C4: when no argument of \<open>d\<close> is named \<open>n\<close>, \<^verbatim>\<open>GetMutableArgument\<close> with
  \<^verbatim>\<open>create_if_missing = false\<close> returns the null pointer, without a fatal error,
  and leaves \<open>d\<close> as it was.
\<close>

theorem GetMutableArgument_absent:
  assumes "\<forall>a\<in>set (op_arg d). arg_name a \<noteq> n"
  shows "GetMutableArgument n False d = (None, d)"
proof -
  from assms have "GetMutableArgument_loop n d 0 = None"
    by (simp add: GetMutableArgument_loop_eq GetArgument_loop_None)
  then show ?thesis by (simp add: GetMutableArgument_def)
qed

theorem GetMutableArgument_absent_witness:
  "GetMutableArgument ''c'' False def_aba = (None, def_aba)"
  using GetMutableArgument_absent [of def_aba "''c''"]
  by (simp add: fixture_simps)

text \<open>
  C7: when no argument of \<open>d\<close> is named \<open>n\<close>, \<^verbatim>\<open>GetMutableArgument\<close> with
  \<^verbatim>\<open>create_if_missing = true\<close> appends exactly one entry, with the name \<open>n\<close> and
  nothing else set, after the existing entries, which keep their contents and order;
  it returns the pointer to the appended entry, and a store \<open>g\<close> through that
  pointer changes that entry of the definition and no other.
\<close>

theorem GetMutableArgument_create:
  assumes "\<forall>a\<in>set (op_arg d). arg_name a \<noteq> n"
  shows "GetMutableArgument n True d =
           (Some (arg_size d),
            d\<lparr>op_arg := op_arg d @
               [\<lparr>arg_name = n, arg_f = None, arg_i = None, arg_s = None,
                 arg_floats = [], arg_ints = [], arg_strings = []\<rparr>]\<rparr>)
         \<and> op_arg (store_through (arg_size d) g (snd (GetMutableArgument n True d))) =
             op_arg d @
               [g \<lparr>arg_name = n, arg_f = None, arg_i = None, arg_s = None,
                   arg_floats = [], arg_ints = [], arg_strings = []\<rparr>]"
proof -
  from assms have "GetMutableArgument_loop n d 0 = None"
    by (simp add: GetMutableArgument_loop_eq GetArgument_loop_None)
  then show ?thesis
    by (simp add: GetMutableArgument_def add_arg_def store_through_def arg_size_def
        set_name_def Argument_new_def)
qed

theorem GetMutableArgument_create_witness:
  "GetMutableArgument ''c'' True def_aba =
     (Some 3, \<lparr>op_arg = [MakeArgument_int ''a'' 1, MakeArgument_int ''b'' 2,
        MakeArgument_int ''a'' 3, set_name ''c'' Argument_new]\<rparr>)
   \<and> op_arg (store_through 3 (set_i 7) (snd (GetMutableArgument ''c'' True def_aba))) =
       [MakeArgument_int ''a'' 1, MakeArgument_int ''b'' 2, MakeArgument_int ''a'' 3,
        MakeArgument_int ''c'' 7]"
proof -
  have h: "\<forall>a\<in>set (op_arg def_aba). arg_name a \<noteq> ''c''"
    by (simp add: fixture_simps)
  have sz: "arg_size def_aba = 3"
    by (simp add: arg_size_def def_aba_def)
  from GetMutableArgument_create [OF h, of "set_i 7"] show ?thesis
    unfolding sz by (simp add: fixture_simps store_through_def numeral_3_eq_3)
qed

text \<open>
  C10: for every \<open>d\<close> and \<open>n\<close>, \<^verbatim>\<open>GetMutableArgument\<close> with
  \<^verbatim>\<open>create_if_missing = true\<close> never returns the null pointer. It returns a pointer
  to an entry of the resulting definition whose name is \<open>n\<close>: the first entry that
  already had the name, the definition being unchanged, or the entry it appended.
  \<^verbatim>\<open>GetArgument\<close> on the resulting definition returns that same entry, so it cannot
  take the fatal path.
\<close>

theorem GetMutableArgument_create_never_absent:
  "\<exists>p. fst (GetMutableArgument n True d) = Some p
     \<and> p < arg_size (snd (GetMutableArgument n True d))
     \<and> arg_name (op_arg (snd (GetMutableArgument n True d)) ! p) = n
     \<and> GetArgument (snd (GetMutableArgument n True d)) n = Inr p
     \<and> (snd (GetMutableArgument n True d) = d \<and> p < arg_size d
        \<or> p = arg_size d
          \<and> op_arg (snd (GetMutableArgument n True d)) = op_arg d @ [set_name n Argument_new])"
proof (cases "GetArgument_loop (op_arg d) n 0")
  case None
  then have none: "\<forall>a\<in>set (op_arg d). arg_name a \<noteq> n"
    by (simp add: GetArgument_loop_None)
  from None have res: "GetMutableArgument n True d =
      (Some (arg_size d), d\<lparr>op_arg := op_arg d @ [set_name n Argument_new]\<rparr>)"
    by (simp add: GetMutableArgument_def GetMutableArgument_loop_eq add_arg_def
        store_through_def arg_size_def)
  have nm: "arg_name (set_name n Argument_new) = n"
    by (simp add: set_name_def)
  have scan: "GetArgument_loop (op_arg d @ [set_name n Argument_new]) n 0
      = Some (length (op_arg d))"
    using GetArgument_loop_append_fresh [OF none, of "set_name n Argument_new" 0] nm
    by simp
  show ?thesis
    unfolding res using scan nm by (simp add: GetArgument_def arg_size_def)
next
  case (Some p)
  then have res: "GetMutableArgument n True d = (Some p, d)"
    by (simp add: GetMutableArgument_def GetMutableArgument_loop_eq)
  from GetArgument_loop_Some [OF Some] have
    "p < length (op_arg d)" "arg_name (op_arg d ! p) = n" by auto
  with Some show ?thesis
    unfolding res by (simp add: GetArgument_def arg_size_def)
qed

section \<open>Properties of file input and output\<close>

text \<open>
  C9: in both build variants the binary read hands the parser a coded stream whose
  hard limit is 1073741824 bytes (1 GiB, \<open>2 ^ 30\<close>) and whose warning threshold is
  536870912 bytes (512 MiB, \<open>2 ^ 29\<close>); the lite variant's \<^verbatim>\<open>1024LL << 20\<close> and
  \<^verbatim>\<open>512LL << 20\<close> are these two constants.
\<close>

theorem binary_read_byte_limits:
  "sint (total_bytes_limit (coded_input raw_input)) = 1073741824
   \<and> sint (warning_threshold (coded_input raw_input)) = 536870912
   \<and> sint (total_bytes_limit (coded_stream fs filename)) = 1073741824
   \<and> sint (warning_threshold (coded_stream fs filename)) = 536870912
   \<and> push_bit 20 (1024 :: 64 word) = 1073741824
   \<and> push_bit 20 (512 :: 64 word) = 536870912
   \<and> (1073741824 :: int) = 2 ^ 30 \<and> (536870912 :: int) = 2 ^ 29
   \<and> ReadProtoFromBinaryFile_lite Q fs filename proto = Q (coded_stream fs filename) proto
   \<and> ReadProtoFromBinaryFile_full P fs filename proto =
       (if open_RDONLY fs filename = - 1 then Inl (Fatal (''File not found: '' @ filename))
        else Inr (P (coded_input (FileInputStream_new fs filename (open_RDONLY fs filename)))
                    proto))"
  by (simp add: coded_input_def coded_stream_def SetTotalBytesLimit_def
      ReadProtoFromBinaryFile_lite_def ReadProtoFromBinaryFile_full_def CAFFE_CHECK_NE_def)

text \<open>
  What the adaptor delivers from a stream whose flag is down, and from a good stream
  holding less than one block.
\<close>

lemma CopyingInputStreamAdaptor_bytes_failed:
  "\<not> ifs_good st \<Longrightarrow> CopyingInputStreamAdaptor_bytes st = []"
  by (simp add: CopyingInputStreamAdaptor_bytes.simps [of st] Read_def)

lemma CopyingInputStreamAdaptor_bytes_short:
  assumes "ifs_good st" and "length (ifs_bytes st) < 8192"
  shows "CopyingInputStreamAdaptor_bytes st = ifs_bytes st"
proof (cases "ifs_bytes st = []")
  case True
  with assms show ?thesis
    by (simp add: CopyingInputStreamAdaptor_bytes.simps [of st] Read_def)
next
  case False
  from assms have "\<not> ifs_good (snd (snd (Read st 8192)))"
    by (simp add: Read_def Let_def)
  then have "CopyingInputStreamAdaptor_bytes (snd (snd (Read st 8192))) = []"
    by (rule CopyingInputStreamAdaptor_bytes_failed)
  with assms False show ?thesis
    by (simp add: CopyingInputStreamAdaptor_bytes.simps [of st] Read_def Let_def)
qed

text \<open>
  C2, as the code has it: in the full build the binary read aborts with the
  diagnostic \<^verbatim>\<open>File not found: <path>\<close> when the file cannot be opened. In the
  lite build it does not abort on such a file: every \<open>Read\<close> on the underlying
  stream reports \<open>-1\<close>, delivers no bytes and leaves the stream as it was. In both
  builds, when the byte stream fails to parse, that is when the parser reports
  failure on the stream the read hands it (in the full build, the stream of a file
  that opened), the read returns false with the output message as the parser left it.
\<close>

theorem ReadProtoFromBinaryFile_failure_modes:
  "(fs_contents fs filename = None \<longrightarrow>
      ReadProtoFromBinaryFile_full P fs filename proto
        = Inl (Fatal (''File not found: '' @ filename))
      \<and> Read (cis_input (coded_stream fs filename)) sz
        = (- 1, [], cis_input (coded_stream fs filename)))
   \<and> (fs_contents fs filename = Some bs
        \<and> P (coded_input \<lparr>fis_fd = 3, fis_bytes = bs\<rparr>) proto = (False, proto') \<longrightarrow>
      ReadProtoFromBinaryFile_full P fs filename proto = Inr (False, proto'))
   \<and> (Q (coded_stream fs filename) proto = (False, proto') \<longrightarrow>
      ReadProtoFromBinaryFile_lite Q fs filename proto = (False, proto'))"
  by (simp add: ReadProtoFromBinaryFile_full_def ReadProtoFromBinaryFile_lite_def
      CAFFE_CHECK_NE_def open_RDONLY_def FileInputStream_new_def coded_stream_def
      SetTotalBytesLimit_def CodedInputStream_new_def IfstreamInputStream_new_def Read_def)

text \<open>
  In \<open>fs_fixture\<close>, \<^verbatim>\<open>missing.pb\<close> cannot be opened and \<^verbatim>\<open>bad.pb\<close> holds a
  single byte, which is no complete field: both stand-in parsers reject it and leave
  the message cleared.
\<close>

theorem ReadProtoFromBinaryFile_failure_modes_witness:
  "ReadProtoFromBinaryFile_full ParseFromCodedStream_name_full fs_fixture ''missing.pb''
       (MakeArgument_int ''old'' 1)
     = Inl (Fatal ''File not found: missing.pb'')
   \<and> fst (Read (cis_input (coded_stream fs_fixture ''missing.pb'')) 8192) = - 1
   \<and> ReadProtoFromBinaryFile_full ParseFromCodedStream_name_full fs_fixture ''bad.pb''
       (MakeArgument_int ''old'' 1)
     = Inr (False, Argument_new)
   \<and> ReadProtoFromBinaryFile_lite ParseFromCodedStream_name_lite fs_fixture ''bad.pb''
       (MakeArgument_int ''old'' 1)
     = (False, Argument_new)"
proof -
  have missing: "fs_contents fs_fixture ''missing.pb'' = None"
    by (simp add: fs_fixture_def)
  have bad: "fs_contents fs_fixture ''bad.pb'' = Some ''x''"
    by (simp add: fs_fixture_def)
  have pfull:
    "ParseFromCodedStream_name_full (coded_input \<lparr>fis_fd = 3, fis_bytes = ''x''\<rparr>)
       (MakeArgument_int ''old'' 1) = (False, Argument_new)"
    by (simp add: ParseFromCodedStream_name_full_def decode_name_def coded_input_def
        SetTotalBytesLimit_def CodedInputStream_new_def)
  have stream: "cis_input (coded_stream fs_fixture ''bad.pb'')
      = \<lparr>ifs_good = True, ifs_bytes = ''x''\<rparr>"
    by (simp add: coded_stream_def SetTotalBytesLimit_def CodedInputStream_new_def
        IfstreamInputStream_new_def bad)
  have "CopyingInputStreamAdaptor_bytes \<lparr>ifs_good = True, ifs_bytes = ''x''\<rparr> = ''x''"
    using CopyingInputStreamAdaptor_bytes_short [of "\<lparr>ifs_good = True, ifs_bytes = ''x''\<rparr>"]
    by simp
  with stream have plite:
    "ParseFromCodedStream_name_lite (coded_stream fs_fixture ''bad.pb'')
       (MakeArgument_int ''old'' 1) = (False, Argument_new)"
    by (simp add: ParseFromCodedStream_name_lite_def decode_name_def)
  from ReadProtoFromBinaryFile_failure_modes
         [of fs_fixture "''missing.pb''" ParseFromCodedStream_name_full
             "MakeArgument_int ''old'' 1" 8192]
       ReadProtoFromBinaryFile_failure_modes
         [of fs_fixture "''bad.pb''" ParseFromCodedStream_name_full
             "MakeArgument_int ''old'' 1" 8192 "''x''" Argument_new
             ParseFromCodedStream_name_lite]
       missing bad pfull plite
  show ?thesis by simp
qed

text \<open>
  The binary read on a path that cannot be opened does not return a false flag in
  either build. The full build aborts. The lite build hands the parser a stream that
  ends at once, which is the encoding of a message with nothing set: for a message
  type without required fields the parser accepts it, and the read returns true
  with the message cleared. (For a message type with a required field the library's
  final check would fail on the same input; the lite flag on such a path depends on
  the message type.)
\<close>

theorem ReadProtoFromBinaryFile_unopenable_not_false:
  "ReadProtoFromBinaryFile_full ParseFromCodedStream_name_full fs_fixture ''missing.pb''
       (MakeArgument_int ''old'' 1)
     = Inl (Fatal ''File not found: missing.pb'')
   \<and> ReadProtoFromBinaryFile_lite ParseFromCodedStream_name_lite fs_fixture ''missing.pb''
       (MakeArgument_int ''old'' 1)
     = (True, Argument_new)"
  by (simp add: ReadProtoFromBinaryFile_full_def CAFFE_CHECK_NE_def open_RDONLY_def
      ReadProtoFromBinaryFile_lite_def ParseFromCodedStream_name_lite_def coded_stream_def
      SetTotalBytesLimit_def CodedInputStream_new_def IfstreamInputStream_new_def
      CopyingInputStreamAdaptor_bytes_failed decode_name_def fs_fixture_def)

text \<open>
  \<^verbatim>\<open>WriteProtoToTextFile\<close> never looks at the descriptor: whether it aborts is
  decided by the printer's verdict alone. \<^verbatim>\<open>WriteProtoToBinaryFile\<close>, its
  sibling, aborts on every path that cannot be opened, before it serializes.
\<close>

lemma WriteProtoToTextFile_verdict:
  "WriteProtoToTextFile Print proto filename fs =
     (case open_WRONLY_CREAT_TRUNC fs filename of
        (fd, fs') \<Rightarrow>
          if fst (Print proto (FileOutputStream_new fd))
          then Inr (FileOutputStream_delete filename
                      (snd (Print proto (FileOutputStream_new fd))) fs')
          else Inl (Fatal []))"
  by (simp add: WriteProtoToTextFile_def CAFFE_CHECK_def split: prod.splits)

lemma WriteProtoToBinaryFile_full_unopenable:
  "\<not> fs_creatable fs filename \<Longrightarrow>
     WriteProtoToBinaryFile_full S proto filename fs =
       Inl (Fatal (''File cannot be created: '' @ filename @ '' error number: ''
                     @ show_int (fs_errno fs filename)))"
  by (simp add: WriteProtoToBinaryFile_full_def open_WRONLY_CREAT_TRUNC_def CAFFE_CHECK_NE_def)

text \<open>
  C3: on a path that cannot be opened for writing, the text write is to abort with
  a fatal diagnostic. In \<open>fs_fixture\<close> the path \<^verbatim>\<open>/nonexistent/out.pbtxt\<close> cannot
  be opened: \<^verbatim>\<open>open\<close> returns \<open>-1\<close>. With a printer that succeeds into the
  stream's buffer, \<^verbatim>\<open>WriteProtoToTextFile\<close> returns normally, and the file system
  is as before: the message is lost.
\<close>

theorem WriteProtoToTextFile_unopenable_returns:
  "open_WRONLY_CREAT_TRUNC fs_fixture ''/nonexistent/out.pbtxt'' = (- 1, fs_fixture)
   \<and> WriteProtoToTextFile Print_buffered ''name: x'' ''/nonexistent/out.pbtxt'' fs_fixture
       = Inr fs_fixture"
  by (simp add: WriteProtoToTextFile_def open_WRONLY_CREAT_TRUNC_def CAFFE_CHECK_def
      Print_buffered_def FileOutputStream_new_def FileOutputStream_delete_def fs_fixture_def)

end
